theory Spec2Isabelle
  imports Complex_Main
begin

section \<open>Data model of \<open>app.py\<close>\<close>

text \<open>
  The table \<open>Transaction\<close> has the columns \<open>id\<close>, \<open>title\<close>, \<open>description\<close>, \<open>price\<close>,
  \<open>category\<close> and \<open>dateOfSale\<close>. A price is a finite float; every finite float is a
  rational, so a price is the \<open>rat\<close> it denotes and comparisons of prices are exact.
  Adding floats rounds, so the sum that SQLite returns is not computed here: it is a
  function of the environment (\<open>float_sum\<close> below). The store is the list of rows in
  rowid order, the order in which SQLite scans the table when a query has no
  \<open>ORDER BY\<close>. A string is the list of its characters, each a code point below 256.
\<close>

record date =
  d_year :: nat
  d_month :: nat
  d_day :: nat

record Transaction =
  id_col :: nat
  title :: string
  description :: string
  price :: rat
  category :: string
  dateOfSale :: date

type_synonym store = "Transaction list"

text \<open>
  \<open>request.args\<close>: each of the four query parameters is absent or a string.
\<close>

record args =
  arg_search :: "string option"
  arg_page :: "string option"
  arg_per_page :: "string option"
  arg_month :: "string option"

text \<open>
  A handler either raises (an unhandled exception, which Flask answers with status 500)
  or returns: \<open>jsonify(x)\<close> with status 200, or \<open>jsonify({'error': msg}), 400\<close>.
\<close>

datatype exn = ValueError | OverflowError | AttributeError | RequestError

datatype 'a reply = Reply200 'a | Reply400 string

record row_json =
  j_title :: string
  j_description :: string
  j_price :: rat
  j_category :: string
  j_dateOfSale :: string

record statistics_json =
  total_sales :: "rat option"
  total_items :: nat
  not_sold_items :: nat

record bar_json =
  range_label :: string
  bar_count :: nat

record pie_json =
  pie_category :: string
  pie_count :: nat

record combined_json =
  c_transactions :: "row_json list"
  c_statistics :: statistics_json
  c_bar_chart :: "bar_json list"
  c_pie_chart :: "pie_json list"

section \<open>Library functions the handlers call\<close>

text \<open>
  Three functions of the environment are parameters of the handlers:
  \<^item> \<open>int_of\<close> is Python's \<open>int(s)\<close> on a string, \<open>None\<close> when it raises \<open>ValueError\<close>;
  \<^item> \<open>price_text\<close> is the text that SQLite compares a float with under \<open>LIKE\<close>;
  \<^item> \<open>float_sum\<close> is the double that SQLite's \<open>SUM\<close> returns for a non-empty
    sequence of doubles, which need not be their exact sum.
  Every theorem below holds for all three, whatever they are.
\<close>

record library =
  int_of :: "string \<Rightarrow> int option"
  price_text :: "rat \<Rightarrow> string"
  float_sum :: "rat list \<Rightarrow> rat"

subsection \<open>\<open>int(s)\<close> on a string\<close>

text \<open>
  \<open>py_int\<close> is \<open>int(s)\<close> as CPython computes it for a string of code points below
  256. Code points from 128 on are first replaced: the two white-space characters among
  them (133 and 160) by a blank, every other one by \<open>?\<close>, which no number contains.
  White space around the number is then skipped (the characters 9 to 13 and the blank;
  the characters 28 to 31 are not skipped), an optional sign follows, and then decimal
  digits, where a single underscore may stand between two digits. More than 4300 digits
  are refused (the default limit of current Python versions). \<open>None\<close> is
  \<open>ValueError\<close>.
\<close>

definition to_ascii :: "char \<Rightarrow> char" where
  "to_ascii c =
     (let n = (of_char c :: nat) in
      if n < 127 then c else if n = 133 \<or> n = 160 then CHR '' '' else CHR ''?'')"

definition is_space :: "char \<Rightarrow> bool" where
  "is_space c = (let n = (of_char c :: nat) in (9 \<le> n \<and> n \<le> 13) \<or> n = 32)"

definition is_digit :: "char \<Rightarrow> bool" where
  "is_digit c = (let n = (of_char c :: nat) in 48 \<le> n \<and> n \<le> 57)"

definition digit_val :: "char \<Rightarrow> int" where
  "digit_val c = of_char c - 48"

definition strip :: "string \<Rightarrow> string" where
  "strip s = rev (dropWhile is_space (rev (dropWhile is_space s)))"

fun digits_acc :: "int \<Rightarrow> string \<Rightarrow> int option" where
  "digits_acc acc [] = Some acc"
| "digits_acc acc (c # cs) =
     (if c = CHR ''_'' then
        (case cs of [] \<Rightarrow> None
         | d # ds \<Rightarrow> if is_digit d then digits_acc acc cs else None)
      else if is_digit c then digits_acc (acc * 10 + digit_val c) cs
      else None)"

definition py_digits :: "string \<Rightarrow> int option" where
  "py_digits s =
     (case s of [] \<Rightarrow> None
      | c # cs \<Rightarrow>
          if is_digit c \<and> length (filter is_digit s) \<le> 4300 then digits_acc 0 s else None)"

definition py_int :: "string \<Rightarrow> int option" where
  "py_int s =
     (case strip (map to_ascii s) of [] \<Rightarrow> None
      | c # cs \<Rightarrow>
          if c = CHR ''-'' then map_option uminus (py_digits cs)
          else if c = CHR ''+'' then py_digits cs
          else py_digits (c # cs))"

subsection \<open>\<open>datetime.datetime.strptime(month, '%B').month\<close>\<close>

text \<open>
  The directive \<open>%B\<close> matches the whole string against the full month names of the
  locale, ignoring case; the names are those of the C locale. \<open>None\<close> is the
  \<open>ValueError\<close> that \<open>strptime\<close> raises when the string is no month name.
\<close>

definition lower_char :: "char \<Rightarrow> char" where
  "lower_char c =
     (let n = (of_char c :: nat) in if 65 \<le> n \<and> n \<le> 90 then char_of (n + 32) else c)"

definition month_names :: "string list" where
  "month_names =
     [''january'', ''february'', ''march'', ''april'', ''may'', ''june'', ''july'',
      ''august'', ''september'', ''october'', ''november'', ''december'']"

fun index_of :: "'a \<Rightarrow> 'a list \<Rightarrow> nat option" where
  "index_of x [] = None"
| "index_of x (y # ys) = (if x = y then Some 0 else map_option Suc (index_of x ys))"

definition strptime_B :: "string \<Rightarrow> nat option" where
  "strptime_B s = map_option Suc (index_of (map lower_char s) month_names)"

subsection \<open>The SQL operator \<open>LIKE\<close>\<close>

text \<open>
  In the pattern \<open>%\<close> stands for any run of characters and \<open>_\<close> for any one
  character; every other character stands for itself, ASCII letters without regard to
  case. The pattern is the first argument.
\<close>

fun like :: "string \<Rightarrow> string \<Rightarrow> bool" where
  "like [] t = (t = [])"
| "like (a # p) [] = (a = CHR ''%'' \<and> like p [])"
| "like (a # p) (c # cs) =
     (if a = CHR ''%'' then like p (c # cs) \<or> like (a # p) cs
      else (a = CHR ''_'' \<or> lower_char a = lower_char c) \<and> like p cs)"

subsection \<open>\<open>Query.paginate(page, per_page, False)\<close>\<close>

text \<open>
  With \<open>error_out = False\<close> Flask-SQLAlchemy replaces a page below 1 by 1 and a
  negative page size by 20, and then runs the query with
  \<open>LIMIT per_page OFFSET (page - 1) * per_page\<close>. The two numbers are bound as
  parameters of the statement; SQLite integers have 64 bits, and binding a Python
  integer above \<open>2^63 - 1\<close> raises \<open>OverflowError\<close>.
\<close>

definition sqlite_max :: int where
  "sqlite_max = 9223372036854775807"

definition paginate :: "int \<Rightarrow> int \<Rightarrow> 'a list \<Rightarrow> exn + 'a list" where
  "paginate page per_page rows =
     (let page' = (if page < 1 then 1 else page);
          per_page' = (if per_page < 0 then 20 else per_page);
          offset = (page' - 1) * per_page'
      in if sqlite_max < per_page' \<or> sqlite_max < offset then Inl OverflowError
         else Inr (take (nat per_page') (drop (nat offset) rows)))"

subsection \<open>Formatting\<close>

definition digit_char :: "nat \<Rightarrow> char" where
  "digit_char n = char_of (48 + n)"

fun show_nat :: "nat \<Rightarrow> string" where
  "show_nat n = (if n < 10 then [digit_char n] else show_nat (n div 10) @ [digit_char (n mod 10)])"

declare show_nat.simps [simp del]

definition zero_pad :: "nat \<Rightarrow> string \<Rightarrow> string" where
  "zero_pad w s = replicate (w - length s) (CHR ''0'') @ s"

text \<open>\<open>date.isoformat()\<close>: \<open>YYYY-MM-DD\<close>.\<close>

definition isoformat :: "date \<Rightarrow> string" where
  "isoformat d =
     zero_pad 4 (show_nat (d_year d)) @ ''-'' @ zero_pad 2 (show_nat (d_month d)) @ ''-'' @
     zero_pad 2 (show_nat (d_day d))"

section \<open>Queries\<close>

text \<open>\<open>extract('month', Transaction.dateOfSale) == month_num\<close>\<close>

definition in_month :: "nat \<Rightarrow> Transaction \<Rightarrow> bool" where
  "in_month k t = (d_month (dateOfSale t) = k)"

text \<open>
  The search filter of \<open>get_transactions\<close>. The text that SQLite compares a price
  with under \<open>LIKE\<close> is the argument \<open>ptext\<close>.
\<close>

definition search_match :: "(rat \<Rightarrow> string) \<Rightarrow> string \<Rightarrow> Transaction \<Rightarrow> bool" where
  "search_match ptext pat t =
     (like pat (title t) \<or> like pat (description t) \<or> like pat (ptext (price t)))"

text \<open>
  \<open>func.sum\<close> is \<open>NULL\<close> on no rows, and otherwise the double that SQLite's
  summation returns.
\<close>

definition sql_sum :: "(rat list \<Rightarrow> rat) \<Rightarrow> rat list \<Rightarrow> rat option" where
  "sql_sum fsum xs = (if xs = [] then None else Some (fsum xs))"

definition to_json :: "Transaction \<Rightarrow> row_json" where
  "to_json t =
     \<lparr>j_title = title t, j_description = description t, j_price = price t,
      j_category = category t, j_dateOfSale = isoformat (dateOfSale t)\<rparr>"

section \<open>Handlers\<close>

text \<open>\<open>int(request.args.get(name, default))\<close>\<close>

definition int_arg :: "library \<Rightarrow> string option \<Rightarrow> int \<Rightarrow> exn + int" where
  "int_arg L a dflt =
     (case a of None \<Rightarrow> Inr dflt
      | Some s \<Rightarrow> (case int_of L s of None \<Rightarrow> Inl ValueError | Some n \<Rightarrow> Inr n))"

text \<open>The rows that the query of \<open>get_transactions\<close> selects, before pagination.\<close>

definition transactions_query ::
  "(rat \<Rightarrow> string) \<Rightarrow> store \<Rightarrow> string \<Rightarrow> string \<Rightarrow> exn + Transaction list" where
  "transactions_query ptext st search month =
     (case (if month \<noteq> [] then
              (case strptime_B month of None \<Rightarrow> Inl ValueError
               | Some k \<Rightarrow> Inr (filter (in_month k) st))
            else Inr st) of
        Inl e \<Rightarrow> Inl e
      | Inr q \<Rightarrow>
          if search \<noteq> [] then Inr (filter (search_match ptext (''%'' @ search @ ''%'')) q)
          else Inr q)"

definition get_transactions :: "library \<Rightarrow> store \<Rightarrow> args \<Rightarrow> exn + row_json list reply" where
  "get_transactions L st a =
     (let search = (case arg_search a of None \<Rightarrow> [] | Some s \<Rightarrow> s) in
      (case int_arg L (arg_page a) 1 of Inl e \<Rightarrow> Inl e
       | Inr page \<Rightarrow>
      (case int_arg L (arg_per_page a) 10 of Inl e \<Rightarrow> Inl e
       | Inr per_page \<Rightarrow>
      (let month = (case arg_month a of None \<Rightarrow> [] | Some s \<Rightarrow> s) in
      (case transactions_query (price_text L) st search month of Inl e \<Rightarrow> Inl e
       | Inr q \<Rightarrow>
      (case paginate page per_page q of Inl e \<Rightarrow> Inl e
       | Inr transactions \<Rightarrow> Inr (Reply200 (map to_json transactions))))))))"

text \<open>
  The four handlers below start with
  \<open>month = request.args.get('month'); if not month: return jsonify({'error': ...}), 400\<close>:
  \<open>not month\<close> holds for an absent and for an empty parameter.
\<close>

definition month_missing :: "args \<Rightarrow> bool" where
  "month_missing a = (case arg_month a of None \<Rightarrow> True | Some s \<Rightarrow> s = [])"

definition month_arg :: "args \<Rightarrow> string" where
  "month_arg a = (case arg_month a of None \<Rightarrow> [] | Some s \<Rightarrow> s)"

definition get_statistics :: "library \<Rightarrow> store \<Rightarrow> args \<Rightarrow> exn + statistics_json reply" where
  "get_statistics L st a =
     (if month_missing a then Inr (Reply400 ''Month is required'')
      else case strptime_B (month_arg a) of None \<Rightarrow> Inl ValueError
      | Some month_num \<Rightarrow>
          Inr (Reply200
            \<lparr>total_sales = sql_sum (float_sum L) (map price (filter (in_month month_num) st)),
             total_items = length (filter (in_month month_num) st),
             not_sold_items = length (filter (\<lambda>t. in_month month_num t \<and> price t = 0) st)\<rparr>))"

text \<open>The upper end \<open>None\<close> is \<open>float('inf')\<close>.\<close>

definition ranges :: "(nat \<times> nat option) list" where
  "ranges =
     [(0, Some 100), (101, Some 200), (201, Some 300), (301, Some 400), (401, Some 500),
      (501, Some 600), (601, Some 700), (701, Some 800), (801, Some 900), (901, None)]"

definition in_range :: "nat \<Rightarrow> nat option \<Rightarrow> rat \<Rightarrow> bool" where
  "in_range start end' p =
     (of_nat start \<le> p \<and> (case end' of None \<Rightarrow> True | Some e \<Rightarrow> p < of_nat e))"

definition range_label_of :: "nat \<Rightarrow> nat option \<Rightarrow> string" where
  "range_label_of start end' =
     show_nat start @ ''-'' @ (case end' of None \<Rightarrow> ''above'' | Some e \<Rightarrow> show_nat e)"

definition bar_chart_data :: "store \<Rightarrow> nat \<Rightarrow> bar_json list" where
  "bar_chart_data st month_num =
     map (\<lambda>(start, end').
            \<lparr>range_label = range_label_of start end',
             bar_count = length (filter (\<lambda>t. in_month month_num t \<and> in_range start end' (price t)) st)\<rparr>)
         ranges"

definition get_bar_chart :: "store \<Rightarrow> args \<Rightarrow> exn + bar_json list reply" where
  "get_bar_chart st a =
     (if month_missing a then Inr (Reply400 ''Month is required'')
      else case strptime_B (month_arg a) of None \<Rightarrow> Inl ValueError
      | Some month_num \<Rightarrow> Inr (Reply200 (bar_chart_data st month_num)))"

text \<open>
  \<open>GROUP BY category\<close> with \<open>count(id)\<close>: one row for each category that occurs among
  the selected rows. SQLite computes the groups by sorting, so they come in the order of
  the categories, compared character by character.
\<close>

fun str_le :: "string \<Rightarrow> string \<Rightarrow> bool" where
  "str_le [] t = True"
| "str_le (a # s) [] = False"
| "str_le (a # s) (b # t) = ((of_char a :: nat) < of_char b \<or> (a = b \<and> str_le s t))"

fun insert_sorted :: "string \<Rightarrow> string list \<Rightarrow> string list" where
  "insert_sorted x [] = [x]"
| "insert_sorted x (y # ys) = (if str_le x y then x # y # ys else y # insert_sorted x ys)"

definition sort_strings :: "string list \<Rightarrow> string list" where
  "sort_strings xs = foldr insert_sorted xs []"

definition group_count :: "Transaction list \<Rightarrow> pie_json list" where
  "group_count rows =
     map (\<lambda>c. \<lparr>pie_category = c, pie_count = length (filter (\<lambda>t. category t = c) rows)\<rparr>)
         (sort_strings (remdups (map category rows)))"

definition get_pie_chart :: "store \<Rightarrow> args \<Rightarrow> exn + pie_json list reply" where
  "get_pie_chart st a =
     (if month_missing a then Inr (Reply400 ''Month is required'')
      else case strptime_B (month_arg a) of None \<Rightarrow> Inl ValueError
      | Some month_num \<Rightarrow> Inr (Reply200 (group_count (filter (in_month month_num) st))))"

text \<open>
  \<open>response.json\<close>: the body of a response; the pair that a handler returns with
  status 400 is a tuple and has no such attribute.
\<close>

definition json_of :: "'a reply \<Rightarrow> exn + 'a" where
  "json_of r = (case r of Reply200 x \<Rightarrow> Inr x | Reply400 m \<Rightarrow> Inl AttributeError)"

text \<open>
  \<open>get_combined_data\<close> calls the four handlers in the request context of its own
  request: they read the same \<open>request.args\<close>.
\<close>

definition get_combined_data :: "library \<Rightarrow> store \<Rightarrow> args \<Rightarrow> exn + combined_json reply" where
  "get_combined_data L st a =
     (if month_missing a then Inr (Reply400 ''Month is required'')
      else
        (case get_transactions L st a of Inl e \<Rightarrow> Inl e
         | Inr transactions_response \<Rightarrow>
        (case get_statistics L st a of Inl e \<Rightarrow> Inl e
         | Inr statistics_response \<Rightarrow>
        (case get_bar_chart st a of Inl e \<Rightarrow> Inl e
         | Inr bar_chart_response \<Rightarrow>
        (case get_pie_chart st a of Inl e \<Rightarrow> Inl e
         | Inr pie_chart_response \<Rightarrow>
        (case json_of transactions_response of Inl e \<Rightarrow> Inl e
         | Inr ts \<Rightarrow>
        (case json_of statistics_response of Inl e \<Rightarrow> Inl e
         | Inr s \<Rightarrow>
        (case json_of bar_chart_response of Inl e \<Rightarrow> Inl e
         | Inr b \<Rightarrow>
        (case json_of pie_chart_response of Inl e \<Rightarrow> Inl e
         | Inr p \<Rightarrow>
          Inr (Reply200
            \<lparr>c_transactions = ts, c_statistics = s, c_bar_chart = b,
             c_pie_chart = p\<rparr>))))))))))"

section \<open>Seeding\<close>

text \<open>
  An object of the remote JSON array. The feed is \<open>None\<close> when the request fails;
  \<open>parse\<close> is \<open>dateutil.parser.parse(s).date()\<close>, \<open>None\<close> when it raises.
\<close>

record item =
  i_title :: string
  i_description :: string
  i_price :: rat
  i_category :: string
  i_dateOfSale :: string

definition next_id :: "store \<Rightarrow> nat" where
  "next_id st = Suc (fold max (map id_col st) 0)"

fun seed_items :: "(string \<Rightarrow> date option) \<Rightarrow> item list \<Rightarrow> store \<Rightarrow> exn + store" where
  "seed_items parse [] st = Inr st"
| "seed_items parse (it # its) st =
     (case parse (i_dateOfSale it) of None \<Rightarrow> Inl ValueError
      | Some d \<Rightarrow>
          seed_items parse its
            (st @ [\<lparr>id_col = next_id st, title = i_title it, description = i_description it,
                    price = i_price it, category = i_category it, dateOfSale = d\<rparr>]))"

definition seed_data :: "(string \<Rightarrow> date option) \<Rightarrow> item list option \<Rightarrow> store \<Rightarrow> exn + store" where
  "seed_data parse feed st =
     (case feed of None \<Rightarrow> Inl RequestError | Some data \<Rightarrow> seed_items parse data st)"

text \<open>
  The hook that runs before the first request: \<open>Transaction.query.first()\<close> is
  \<open>None\<close> exactly when the table has no row.
\<close>

definition setup_db :: "(string \<Rightarrow> date option) \<Rightarrow> item list option \<Rightarrow> store \<Rightarrow> exn + store" where
  "setup_db parse feed st = (if st = [] then seed_data parse feed st else Inr st)"

section \<open>Reading a response\<close>

text \<open>The body of a response with status 200, if the handler returned one.\<close>

definition body :: "exn + 'a reply \<Rightarrow> 'a option" where
  "body r = (case r of Inl e \<Rightarrow> None | Inr (Reply200 x) \<Rightarrow> Some x | Inr (Reply400 m) \<Rightarrow> None)"

definition is_client_error :: "exn + 'a reply \<Rightarrow> bool" where
  "is_client_error r = (case r of Inl e \<Rightarrow> False | Inr (Reply200 x) \<Rightarrow> False | Inr (Reply400 m) \<Rightarrow> True)"

definition is_server_error :: "exn + 'a reply \<Rightarrow> bool" where
  "is_server_error r = (case r of Inl e \<Rightarrow> True | Inr x \<Rightarrow> False)"

text \<open>
  The bucket counts in the words of the specification: the rows of the month with
  \<open>lo \<le> price < hi\<close>, and those with \<open>lo \<le> price\<close>.
\<close>

definition count_between :: "store \<Rightarrow> nat \<Rightarrow> rat \<Rightarrow> rat \<Rightarrow> nat" where
  "count_between st k lo hi =
     length (filter (\<lambda>t. lo \<le> price t \<and> price t < hi) (filter (in_month k) st))"

definition count_from :: "store \<Rightarrow> nat \<Rightarrow> rat \<Rightarrow> nat" where
  "count_from st k lo = length (filter (\<lambda>t. lo \<le> price t) (filter (in_month k) st))"

section \<open>Example data\<close>

text \<open>
  Three sales in March with the prices 0, 150 and 999, two in May with the prices 100
  and 100.5, and none in any other month; four requests for March that ask for a page.
\<close>

definition mk_row :: "nat \<Rightarrow> string \<Rightarrow> rat \<Rightarrow> string \<Rightarrow> nat \<Rightarrow> Transaction" where
  "mk_row i name p c m =
     \<lparr>id_col = i, title = name, description = ''item'', price = p, category = c,
      dateOfSale = \<lparr>d_year = 2022, d_month = m, d_day = 7\<rparr>\<rparr>"

definition example_store :: store where
  "example_store =
     [mk_row 1 ''lamp'' 0 ''home'' 3, mk_row 2 ''desk'' 150 ''home'' 3,
      mk_row 3 ''phone'' 999 ''electronics'' 3, mk_row 4 ''shirt'' 100 ''clothing'' 5,
      mk_row 5 ''scarf'' (201 / 2) ''clothing'' 5]"

definition month_only :: "string \<Rightarrow> args" where
  "month_only m = \<lparr>arg_search = None, arg_page = None, arg_per_page = None, arg_month = Some m\<rparr>"

definition no_args :: args where
  "no_args = \<lparr>arg_search = None, arg_page = None, arg_per_page = None, arg_month = None\<rparr>"

definition page_one :: args where
  "page_one =
     \<lparr>arg_search = None, arg_page = None, arg_per_page = Some ''1'', arg_month = Some ''March''\<rparr>"

definition page_two :: args where
  "page_two =
     \<lparr>arg_search = None, arg_page = Some ''2'', arg_per_page = Some ''2'',
      arg_month = Some ''March''\<rparr>"

definition page_three :: args where
  "page_three =
     \<lparr>arg_search = None, arg_page = Some ''3'', arg_per_page = Some ''2'',
      arg_month = Some ''March''\<rparr>"

text \<open>A page whose offset, \<open>(2^62 + 1 - 1) * 2 = 2^63\<close>, is no SQLite integer.\<close>

definition page_huge :: args where
  "page_huge =
     \<lparr>arg_search = None, arg_page = Some ''4611686018427387905'', arg_per_page = Some ''2'',
      arg_month = Some ''March''\<rparr>"

text \<open>
  The environment of the examples. The text of a price is the one SQLite writes for a
  whole number or a whole number and a half (\<open>150.0\<close>, \<open>100.5\<close>), which the prices of
  the example are. They are far below \<open>2^53\<close>, so adding them as doubles does not round
  and the sum that SQLite returns is the exact one.
\<close>

definition example_price_text :: "rat \<Rightarrow> string" where
  "example_price_text p =
     show_nat (nat \<lfloor>p\<rfloor>) @ (if p - of_int \<lfloor>p\<rfloor> = 1 / 2 then ''.5'' else ''.0'')"

definition example_library :: library where
  "example_library =
     \<lparr>int_of = py_int, price_text = example_price_text, float_sum = sum_list\<rparr>"

section \<open>Auxiliary facts\<close>

lemma strptime_B_nonempty: "strptime_B m = Some k \<Longrightarrow> m \<noteq> []"
  by (auto simp: strptime_B_def month_names_def)

lemma month_present:
  "arg_month a = Some m \<Longrightarrow> strptime_B m = Some k \<Longrightarrow> \<not> month_missing a \<and> month_arg a = m"
  by (auto simp: month_missing_def month_arg_def dest: strptime_B_nonempty)

lemma strptime_March: "strptime_B ''March'' = Some 3"
  by code_simp

lemma strptime_May: "strptime_B ''May'' = Some 5"
  by code_simp

lemma strptime_June: "strptime_B ''June'' = Some 6"
  by code_simp

lemma strptime_Smarch: "strptime_B ''Smarch'' = None"
  by code_simp

lemma month_only_month: "arg_month (month_only m) = Some m"
  by (simp add: month_only_def)

lemma example_march_rows:
  "filter (in_month 3) example_store =
     [mk_row 1 ''lamp'' 0 ''home'' 3, mk_row 2 ''desk'' 150 ''home'' 3,
      mk_row 3 ''phone'' 999 ''electronics'' 3]"
  by (simp add: example_store_def mk_row_def in_month_def)

lemma example_may_rows:
  "filter (in_month 5) example_store =
     [mk_row 4 ''shirt'' 100 ''clothing'' 5, mk_row 5 ''scarf'' (201 / 2) ''clothing'' 5]"
  by (simp add: example_store_def mk_row_def in_month_def)

section \<open>Missing month\<close>

text \<open>
  Claim C8. When the request carries no \<open>month\<close> parameter, \<open>/statistics\<close>,
  \<open>/bar_chart\<close>, \<open>/pie_chart\<close> and \<open>/combined_data\<close> answer with the error body
  \<open>{'error': 'Month is required'}\<close> and status 400; the answer is the same for every
  store, so no row of the store reaches it.
\<close>

theorem missing_month_bad_request:
  "arg_month a = None \<Longrightarrow>
     get_statistics L st a = Inr (Reply400 ''Month is required'') \<and>
     get_bar_chart st a = Inr (Reply400 ''Month is required'') \<and>
     get_pie_chart st a = Inr (Reply400 ''Month is required'') \<and>
     get_combined_data L st a = Inr (Reply400 ''Month is required'')"
  by (simp add: get_statistics_def get_bar_chart_def get_pie_chart_def get_combined_data_def
      month_missing_def)

theorem missing_month_bad_request_witness:
  "get_statistics example_library example_store no_args = Inr (Reply400 ''Month is required'') \<and>
   get_bar_chart example_store no_args = Inr (Reply400 ''Month is required'') \<and>
   get_pie_chart example_store no_args = Inr (Reply400 ''Month is required'') \<and>
   get_combined_data example_library example_store no_args = Inr (Reply400 ''Month is required'')"
  using missing_month_bad_request [of no_args example_library example_store]
  by (simp add: no_args_def)

section \<open>Unrecognized month\<close>

lemma int_arg_error: "int_arg L x d = Inl e \<Longrightarrow> e = ValueError"
  by (auto simp: int_arg_def split: option.splits)

lemma transactions_query_bad_month:
  "m \<noteq> [] \<Longrightarrow> strptime_B m = None \<Longrightarrow> transactions_query ptext st s m = Inl ValueError"
  by (simp add: transactions_query_def)

lemma get_transactions_bad_month:
  assumes "arg_month a = Some m" and "m \<noteq> []" and "strptime_B m = None"
  shows "get_transactions L st a = Inl ValueError"
proof (cases "int_arg L (arg_page a) 1")
  case (Inl e)
  then show ?thesis using int_arg_error [OF Inl] by (simp add: get_transactions_def)
next
  case page: (Inr p)
  show ?thesis
  proof (cases "int_arg L (arg_per_page a) 10")
    case (Inl e)
    then show ?thesis using page int_arg_error [OF Inl] by (simp add: get_transactions_def)
  next
    case (Inr n)
    with page assms show ?thesis
      by (simp add: get_transactions_def transactions_query_bad_month)
  qed
qed

text \<open>
  Claim C3, as stated, fails: for the month \<open>Smarch\<close> the handler \<open>get_statistics\<close>
  returns no client error; \<open>strptime\<close> raises \<open>ValueError\<close>, nothing catches it, and the
  request ends as a server error.
\<close>

theorem unrecognized_month_counterexample:
  "\<not> is_client_error (get_statistics example_library example_store (month_only ''Smarch'')) \<and>
   is_server_error (get_statistics example_library example_store (month_only ''Smarch''))"
  by (simp add: get_statistics_def month_missing_def month_arg_def month_only_def
      strptime_Smarch is_client_error_def is_server_error_def)

text \<open>
  Claim C3, amended. For every non-empty \<open>month\<close> value that is not a month name, each
  of \<open>/statistics\<close>, \<open>/bar_chart\<close>, \<open>/pie_chart\<close>, \<open>/combined_data\<close> and \<open>/transactions\<close>
  raises \<open>ValueError\<close>: the request ends as a server error and returns no result data, so
  it is never a silent no-match.
\<close>

theorem unrecognized_month_raises:
  assumes "arg_month a = Some m" and "m \<noteq> []" and "strptime_B m = None"
  shows "get_statistics L st a = Inl ValueError \<and> get_bar_chart st a = Inl ValueError \<and>
         get_pie_chart st a = Inl ValueError \<and> get_combined_data L st a = Inl ValueError \<and>
         get_transactions L st a = Inl ValueError"
proof -
  have mm: "\<not> month_missing a" "month_arg a = m"
    using assms(1,2) by (simp_all add: month_missing_def month_arg_def)
  have t: "get_transactions L st a = Inl ValueError"
    by (rule get_transactions_bad_month [OF assms])
  have "get_statistics L st a = Inl ValueError"
    using mm assms(3) by (simp add: get_statistics_def)
  moreover have "get_bar_chart st a = Inl ValueError"
    using mm assms(3) by (simp add: get_bar_chart_def)
  moreover have "get_pie_chart st a = Inl ValueError"
    using mm assms(3) by (simp add: get_pie_chart_def)
  moreover have "get_combined_data L st a = Inl ValueError"
    using mm t by (simp add: get_combined_data_def)
  ultimately show ?thesis using t by simp
qed

theorem unrecognized_month_raises_witness:
  "get_statistics example_library example_store (month_only ''Smarch'') = Inl ValueError \<and>
   get_bar_chart example_store (month_only ''Smarch'') = Inl ValueError \<and>
   get_pie_chart example_store (month_only ''Smarch'') = Inl ValueError \<and>
   get_combined_data example_library example_store (month_only ''Smarch'') = Inl ValueError \<and>
   get_transactions example_library example_store (month_only ''Smarch'') = Inl ValueError"
proof -
  have n: "''Smarch'' \<noteq> []" by simp
  show ?thesis by (rule unrecognized_month_raises [OF month_only_month n strptime_Smarch])
qed

section \<open>Seeding a populated store\<close>

text \<open>
  Claim C9. On a store that holds at least one row the startup routine returns the
  store as it is, whatever the feed would deliver (also when fetching it would fail):
  nothing is fetched or inserted and every row is unchanged.
\<close>

theorem setup_populated_noop: "st \<noteq> [] \<Longrightarrow> setup_db parse feed st = Inr st"
  by (simp add: setup_db_def)

theorem setup_populated_noop_witness:
  "example_store \<noteq> [] \<and> setup_db (\<lambda>s. None) None example_store = Inr example_store"
proof -
  have h: "example_store \<noteq> []" by (simp add: example_store_def)
  show ?thesis using h setup_populated_noop [OF h] by simp
qed

section \<open>Statistics\<close>

text \<open>
  Claim C10. For a valid month in which no row was sold, \<open>/statistics\<close> answers with
  \<open>total_items = 0\<close>, \<open>not_sold_items = 0\<close> and \<open>total_sales = null\<close> (the SQL sum over
  no rows), not the number 0.
\<close>

theorem statistics_empty_month:
  assumes "arg_month a = Some m" and "strptime_B m = Some k"
    and "filter (in_month k) st = []"
  shows "get_statistics L st a =
           Inr (Reply200 \<lparr>total_sales = None, total_items = 0, not_sold_items = 0\<rparr>)"
proof -
  have "filter (\<lambda>t. in_month k t \<and> price t = 0) st =
          filter (\<lambda>t. price t = 0) (filter (in_month k) st)"
    by (simp add: conj_commute)
  with assms month_present [OF assms(1,2)] show ?thesis
    by (simp add: get_statistics_def sql_sum_def)
qed

theorem statistics_empty_month_witness:
  "filter (in_month 6) example_store = [] \<and>
   get_statistics example_library example_store (month_only ''June'') =
     Inr (Reply200 \<lparr>total_sales = None, total_items = 0, not_sold_items = 0\<rparr>)"
proof -
  have e: "filter (in_month 6) example_store = []"
    by (simp add: example_store_def mk_row_def in_month_def)
  show ?thesis using e statistics_empty_month [OF month_only_month strptime_June e] by simp
qed




section \<open>Bar chart\<close>

lemma label_values:
  "range_label_of 0 (Some 100) = ''0-100''"
  "range_label_of 101 (Some 200) = ''101-200''"
  "range_label_of 201 (Some 300) = ''201-300''"
  "range_label_of 301 (Some 400) = ''301-400''"
  "range_label_of 401 (Some 500) = ''401-500''"
  "range_label_of 501 (Some 600) = ''501-600''"
  "range_label_of 601 (Some 700) = ''601-700''"
  "range_label_of 701 (Some 800) = ''701-800''"
  "range_label_of 801 (Some 900) = ''801-900''"
  "range_label_of 901 None = ''901-above''"
  by code_simp+

lemma bucket_count:
  "length (filter (\<lambda>t. in_month k t \<and> in_range lo (Some hi) (price t)) st) =
     count_between st k (of_nat lo) (of_nat hi)"
  "length (filter (\<lambda>t. in_month k t \<and> in_range lo None (price t)) st) =
     count_from st k (of_nat lo)"
  by (simp_all add: in_range_def count_between_def count_from_def)

lemma bar_chart_data_unfold:
  "bar_chart_data st k =
     [\<lparr>range_label = ''0-100'', bar_count = count_between st k 0 100\<rparr>,
      \<lparr>range_label = ''101-200'', bar_count = count_between st k 101 200\<rparr>,
      \<lparr>range_label = ''201-300'', bar_count = count_between st k 201 300\<rparr>,
      \<lparr>range_label = ''301-400'', bar_count = count_between st k 301 400\<rparr>,
      \<lparr>range_label = ''401-500'', bar_count = count_between st k 401 500\<rparr>,
      \<lparr>range_label = ''501-600'', bar_count = count_between st k 501 600\<rparr>,
      \<lparr>range_label = ''601-700'', bar_count = count_between st k 601 700\<rparr>,
      \<lparr>range_label = ''701-800'', bar_count = count_between st k 701 800\<rparr>,
      \<lparr>range_label = ''801-900'', bar_count = count_between st k 801 900\<rparr>,
      \<lparr>range_label = ''901-above'', bar_count = count_from st k 901\<rparr>]"
  unfolding bar_chart_data_def ranges_def list.map prod.case label_values bucket_count
  by simp

lemma get_bar_chart_valid:
  "arg_month a = Some m \<Longrightarrow> strptime_B m = Some k \<Longrightarrow>
     get_bar_chart st a = Inr (Reply200 (bar_chart_data st k))"
  using month_present [of a m k] by (simp add: get_bar_chart_def)

lemma example_march_counts:
  "count_between example_store 3 0 100 = 1"
  "count_between example_store 3 101 200 = 1"
  "count_between example_store 3 201 300 = 0"
  "count_between example_store 3 301 400 = 0"
  "count_between example_store 3 401 500 = 0"
  "count_between example_store 3 501 600 = 0"
  "count_between example_store 3 601 700 = 0"
  "count_between example_store 3 701 800 = 0"
  "count_between example_store 3 801 900 = 0"
  "count_from example_store 3 901 = 1"
  by (simp_all add: count_between_def count_from_def example_store_def mk_row_def in_month_def)

lemma example_may_counts:
  "count_between example_store 5 0 100 = 0"
  "count_between example_store 5 101 200 = 0"
  "count_between example_store 5 201 300 = 0"
  "count_between example_store 5 301 400 = 0"
  "count_between example_store 5 401 500 = 0"
  "count_between example_store 5 501 600 = 0"
  "count_between example_store 5 601 700 = 0"
  "count_between example_store 5 701 800 = 0"
  "count_between example_store 5 801 900 = 0"
  "count_from example_store 5 901 = 0"
  by (simp_all add: count_between_def count_from_def example_store_def mk_row_def in_month_def)

text \<open>
  Claim C2. For a valid month \<open>/bar_chart\<close> answers with ten buckets, labelled
  \<open>0-100\<close>, \<open>101-200\<close>, ..., \<open>801-900\<close>, \<open>901-above\<close> in this order; the count of a
  bucket is the number of rows of that month with \<open>start \<le> price < end\<close> for the pairs
  (0, 100), (101, 200), ..., (801, 900), and with \<open>901 \<le> price\<close> for the last one. The
  bounds are the listed ones: 100 ends the first bucket and 101 starts the second.
\<close>

theorem bar_chart_buckets:
  assumes "arg_month a = Some m" and "strptime_B m = Some k"
  shows "get_bar_chart st a = Inr (Reply200
           [\<lparr>range_label = ''0-100'', bar_count = count_between st k 0 100\<rparr>,
            \<lparr>range_label = ''101-200'', bar_count = count_between st k 101 200\<rparr>,
            \<lparr>range_label = ''201-300'', bar_count = count_between st k 201 300\<rparr>,
            \<lparr>range_label = ''301-400'', bar_count = count_between st k 301 400\<rparr>,
            \<lparr>range_label = ''401-500'', bar_count = count_between st k 401 500\<rparr>,
            \<lparr>range_label = ''501-600'', bar_count = count_between st k 501 600\<rparr>,
            \<lparr>range_label = ''601-700'', bar_count = count_between st k 601 700\<rparr>,
            \<lparr>range_label = ''701-800'', bar_count = count_between st k 701 800\<rparr>,
            \<lparr>range_label = ''801-900'', bar_count = count_between st k 801 900\<rparr>,
            \<lparr>range_label = ''901-above'', bar_count = count_from st k 901\<rparr>])"
  using get_bar_chart_valid [OF assms] by (simp only: bar_chart_data_unfold)

theorem bar_chart_buckets_witness:
  "get_bar_chart example_store (month_only ''March'') = Inr (Reply200
           [\<lparr>range_label = ''0-100'', bar_count = 1\<rparr>,
            \<lparr>range_label = ''101-200'', bar_count = 1\<rparr>,
            \<lparr>range_label = ''201-300'', bar_count = 0\<rparr>,
            \<lparr>range_label = ''301-400'', bar_count = 0\<rparr>,
            \<lparr>range_label = ''401-500'', bar_count = 0\<rparr>,
            \<lparr>range_label = ''501-600'', bar_count = 0\<rparr>,
            \<lparr>range_label = ''601-700'', bar_count = 0\<rparr>,
            \<lparr>range_label = ''701-800'', bar_count = 0\<rparr>,
            \<lparr>range_label = ''801-900'', bar_count = 0\<rparr>,
            \<lparr>range_label = ''901-above'', bar_count = 1\<rparr>])"
  using bar_chart_buckets [OF month_only_month strptime_March, of example_store]
  by (simp only: example_march_counts)

text \<open>
  Claim C1 at the month of May of the example: the two rows of May have the prices 100
  and 100.5, which lie in none of the ten ranges, so the bucket counts add up to 0
  while \<open>total_items\<close> is 2.
\<close>

theorem bar_chart_gap:
  "map_option (sum_list \<circ> map bar_count) (body (get_bar_chart example_store (month_only ''May''))) =
     Some 0 \<and>
   map_option total_items
     (body (get_statistics example_library example_store (month_only ''May''))) = Some 2"
proof -
  have b: "body (get_bar_chart example_store (month_only ''May'')) =
             Some (bar_chart_data example_store 5)"
    by (simp add: get_bar_chart_valid [OF month_only_month strptime_May] body_def)
  have c: "sum_list (map bar_count (bar_chart_data example_store 5)) = 0"
    unfolding bar_chart_data_unfold example_may_counts by simp
  have s: "map_option total_items
             (body (get_statistics example_library example_store (month_only ''May''))) =
             Some (length (filter (in_month 5) example_store))"
    by (simp add: get_statistics_def month_missing_def month_arg_def month_only_def
        strptime_May body_def)
  show ?thesis unfolding b s example_may_rows using c by simp
qed

section \<open>Pie chart\<close>

lemma insert_sorted_set: "set (insert_sorted x xs) = insert x (set xs)"
  by (induction xs) auto

lemma insert_sorted_sum:
  fixes f :: "string \<Rightarrow> nat"
  shows "sum_list (map f (insert_sorted x xs)) = f x + sum_list (map f xs)"
  by (induction xs) auto

lemma sort_strings_set: "set (sort_strings xs) = set xs"
  by (induction xs) (auto simp: sort_strings_def insert_sorted_set)

lemma sort_strings_sum:
  fixes f :: "string \<Rightarrow> nat"
  shows "sum_list (map f (sort_strings xs)) = sum_list (map f xs)"
  by (induction xs) (simp_all add: sort_strings_def insert_sorted_sum)

lemma category_count:
  "length (filter (\<lambda>t. category t = c) rows) = count_list (map category rows) c"
  by (induction rows) auto

lemma group_count_sum: "sum_list (map pie_count (group_count rows)) = length rows"
proof -
  let ?cs = "map category rows"
  have "sum_list (map pie_count (group_count rows)) =
          sum_list (map (count_list ?cs) (sort_strings (remdups ?cs)))"
    by (simp add: group_count_def comp_def category_count)
  also have "\<dots> = sum_list (map (count_list ?cs) (remdups ?cs))"
    by (rule sort_strings_sum)
  also have "\<dots> = sum (count_list ?cs) (set ?cs)"
    by (simp add: sum_list_distinct_conv_sum_set)
  also have "\<dots> = length ?cs"
    by (rule sum_count_set) simp_all
  finally show ?thesis by simp
qed

lemma group_count_positive:
  "p \<in> set (group_count rows) \<Longrightarrow>
     0 < pie_count p \<and> (\<exists>t \<in> set rows. category t = pie_category p)"
  by (auto simp: group_count_def sort_strings_set filter_empty_conv)

text \<open>
  Claim C7. For every valid month the counts of \<open>/pie_chart\<close> add up to the
  \<open>total_items\<close> of \<open>/statistics\<close> for the same month, and every category in the answer
  has a positive count: it is the category of some row of that month.
\<close>

theorem pie_chart_sums_to_total:
  assumes "arg_month a = Some m" and "strptime_B m = Some k"
  shows "\<exists>ps s. get_pie_chart st a = Inr (Reply200 ps) \<and>
           get_statistics L st a = Inr (Reply200 s) \<and>
           sum_list (map pie_count ps) = total_items s \<and>
           (\<forall>p \<in> set ps. 0 < pie_count p \<and>
              (\<exists>t \<in> set st. in_month k t \<and> category t = pie_category p))"
proof -
  let ?rows = "filter (in_month k) st"
  let ?s = "\<lparr>total_sales = sql_sum (float_sum L) (map price ?rows), total_items = length ?rows,
             not_sold_items = length (filter (\<lambda>t. in_month k t \<and> price t = 0) st)\<rparr>"
  note mp = month_present [OF assms]
  have p: "get_pie_chart st a = Inr (Reply200 (group_count ?rows))"
    using mp assms(2) by (simp add: get_pie_chart_def)
  have s: "get_statistics L st a = Inr (Reply200 ?s)"
    using mp assms(2) by (simp add: get_statistics_def)
  have tot: "sum_list (map pie_count (group_count ?rows)) = total_items ?s"
    by (simp add: group_count_sum)
  have pos: "\<forall>p \<in> set (group_count ?rows). 0 < pie_count p \<and>
              (\<exists>t \<in> set st. in_month k t \<and> category t = pie_category p)"
  proof
    fix p assume "p \<in> set (group_count ?rows)"
    from group_count_positive [OF this] show "0 < pie_count p \<and>
              (\<exists>t \<in> set st. in_month k t \<and> category t = pie_category p)"
      by auto
  qed
  from p s tot pos show ?thesis by blast
qed

theorem pie_chart_sums_to_total_witness:
  "\<exists>ps s. get_pie_chart example_store (month_only ''March'') = Inr (Reply200 ps) \<and>
      get_statistics example_library example_store (month_only ''March'') = Inr (Reply200 s) \<and>
      sum_list (map pie_count ps) = total_items s \<and>
      (\<forall>p \<in> set ps. 0 < pie_count p \<and>
         (\<exists>t \<in> set example_store. in_month 3 t \<and> category t = pie_category p))"
  using pie_chart_sums_to_total [OF month_only_month strptime_March] by simp

section \<open>Combined report\<close>

lemma get_statistics_ok:
  "arg_month a = Some m \<Longrightarrow> strptime_B m = Some k \<Longrightarrow>
     \<exists>s. get_statistics L st a = Inr (Reply200 s)"
  using month_present [of a m k] by (simp add: get_statistics_def)

lemma get_bar_chart_ok:
  "arg_month a = Some m \<Longrightarrow> strptime_B m = Some k \<Longrightarrow> \<exists>b. get_bar_chart st a = Inr (Reply200 b)"
  using month_present [of a m k] by (simp add: get_bar_chart_def)

lemma get_pie_chart_ok:
  "arg_month a = Some m \<Longrightarrow> strptime_B m = Some k \<Longrightarrow> \<exists>p. get_pie_chart st a = Inr (Reply200 p)"
  using month_present [of a m k] by (simp add: get_pie_chart_def)

lemma get_transactions_reply:
  "get_transactions L st a = Inr r \<Longrightarrow> \<exists>ts. r = Reply200 ts"
  by (auto simp: get_transactions_def Let_def split: sum.splits)

lemma combined_transactions:
  assumes "arg_month a = Some m" and "strptime_B m = Some k"
  shows "map_option c_transactions (body (get_combined_data L st a)) =
           body (get_transactions L st a)"
proof -
  obtain s b p where o: "get_statistics L st a = Inr (Reply200 s)"
    "get_bar_chart st a = Inr (Reply200 b)" "get_pie_chart st a = Inr (Reply200 p)"
    using get_statistics_ok [OF assms] get_bar_chart_ok [OF assms] get_pie_chart_ok [OF assms]
    by blast
  have mm: "\<not> month_missing a" using month_present [OF assms] by simp
  show ?thesis
  proof (cases "get_transactions L st a")
    case (Inl e)
    then show ?thesis using mm by (simp add: get_combined_data_def body_def)
  next
    case (Inr r)
    then obtain ts where "r = Reply200 ts" using get_transactions_reply by blast
    with Inr o mm show ?thesis by (simp add: get_combined_data_def body_def json_of_def)
  qed
qed

lemma default_listing:
  assumes "arg_month a = Some m" and "strptime_B m = Some k"
    and "arg_search a = None" and "arg_page a = None" and "arg_per_page a = None"
  shows "get_transactions L st a =
           Inr (Reply200 (map to_json (take 10 (filter (in_month k) st))))"
  using assms strptime_B_nonempty [OF assms(2)]
  by (simp add: get_transactions_def int_arg_def transactions_query_def paginate_def
      sqlite_max_def)

lemma page_one_listing:
  "body (get_transactions example_library example_store page_one) =
     Some [to_json (mk_row 1 ''lamp'' 0 ''home'' 3)]"
  by code_simp

lemma month_listing:
  "body (get_transactions example_library example_store (month_only ''March'')) =
     Some (map to_json (filter (in_month 3) example_store))"
  by code_simp

text \<open>
  Claim C4, as stated, fails: with \<open>per_page=1\<close> on the request to \<open>/combined_data\<close>
  for March, the \<open>transactions\<close> field holds one row, while the listing for March with
  the default page size holds three.
\<close>

theorem combined_ignores_paging_counterexample:
  "map_option c_transactions (body (get_combined_data example_library example_store page_one)) \<noteq>
     body (get_transactions example_library example_store (month_only ''March''))"
proof -
  have a: "arg_month page_one = Some ''March''" by (simp add: page_one_def)
  show ?thesis
    unfolding combined_transactions [OF a strptime_March] page_one_listing month_listing
      example_march_rows
    by simp
qed

text \<open>
  Claim C4, amended. For every request to \<open>/combined_data\<close> with a valid month, the
  \<open>transactions\<close> field is what \<open>/transactions\<close> answers to the same request: the
  \<open>search\<close>, \<open>page\<close> and \<open>per_page\<close> parameters of the request apply to it. When the
  request carries none of the three, it is the first page of the month with the default
  page size and no search.
\<close>

theorem combined_transactions_same_request:
  assumes "arg_month a = Some m" and "strptime_B m = Some k"
  shows "map_option c_transactions (body (get_combined_data L st a)) =
           body (get_transactions L st a) \<and>
         (arg_search a = None \<and> arg_page a = None \<and> arg_per_page a = None \<longrightarrow>
            map_option c_transactions (body (get_combined_data L st a)) =
              Some (map to_json (take 10 (filter (in_month k) st))))"
  using combined_transactions [OF assms] default_listing [OF assms]
  by (simp add: body_def)

theorem combined_transactions_same_request_witness:
  "map_option c_transactions (body (get_combined_data example_library example_store page_one)) =
     Some [to_json (mk_row 1 ''lamp'' 0 ''home'' 3)] \<and>
   map_option c_transactions
     (body (get_combined_data example_library example_store (month_only ''March''))) =
     Some (map to_json (take 10 (filter (in_month 3) example_store)))"
proof -
  have a: "arg_month page_one = Some ''March''" by (simp add: page_one_def)
  have b: "arg_month (month_only ''March'') = Some ''March''"
    "arg_search (month_only ''March'') = None" "arg_page (month_only ''March'') = None"
    "arg_per_page (month_only ''March'') = None"
    by (simp_all add: month_only_def)
  note t1 = combined_transactions_same_request
    [OF a strptime_March, of example_library example_store]
  note t2 = combined_transactions_same_request
    [OF b(1) strptime_March, of example_library example_store]
  have c1: "map_option c_transactions
      (body (get_combined_data example_library example_store page_one)) =
      Some [to_json (mk_row 1 ''lamp'' 0 ''home'' 3)]"
    using t1 [THEN conjunct1] page_one_listing by (rule trans)
  have c2: "map_option c_transactions
     (body (get_combined_data example_library example_store (month_only ''March''))) =
     Some (map to_json (take 10 (filter (in_month 3) example_store)))"
    using t2 [THEN conjunct2] b(2-) by blast
  from c1 c2 show ?thesis by (rule conjI)
qed

section \<open>Pagination\<close>

lemma transactions_query_filter:
  "transactions_query ptext st s m = Inr q \<Longrightarrow> \<exists>P. q = filter P st"
proof -
  assume h: "transactions_query ptext st s m = Inr q"
  have t: "st = filter (\<lambda>t. True) st" by simp
  show ?thesis
  proof (cases "m = []")
    case True
    with h have "q = st \<or> q = filter (search_match ptext (''%'' @ s @ ''%'')) st"
      by (auto simp: transactions_query_def split: if_splits)
    with t show ?thesis by metis
  next
    case False
    with h obtain k where "q = filter (in_month k) st \<or>
        q = filter (search_match ptext (''%'' @ s @ ''%'')) (filter (in_month k) st)"
      by (auto simp: transactions_query_def split: if_splits option.splits)
    then show ?thesis by (metis filter_filter)
  qed
qed

lemma slice_length:
  fixes p n :: int
  assumes "1 \<le> p" and "0 \<le> n"
  shows "int (length (take (nat n) (drop (nat ((p - 1) * n)) q))) =
           min n (max 0 (int (length q) - (p - 1) * n))"
proof -
  have k: "0 \<le> (p - 1) * n" using assms by simp
  then show ?thesis using assms(2) by (simp add: min_def max_def) linarith
qed

lemma paginate_in_range:
  "1 \<le> p \<Longrightarrow> 0 \<le> n \<Longrightarrow> n \<le> sqlite_max \<Longrightarrow> (p - 1) * n \<le> sqlite_max \<Longrightarrow>
     paginate p n q = Inr (take (nat n) (drop (nat ((p - 1) * n)) q))"
  by (simp add: paginate_def)

lemma paginate_overflow:
  "1 \<le> p \<Longrightarrow> 0 \<le> n \<Longrightarrow> sqlite_max < n \<or> sqlite_max < (p - 1) * n \<Longrightarrow>
     paginate p n q = Inl OverflowError"
  by (auto simp: paginate_def)

lemma get_transactions_paginate:
  assumes "int_arg L (arg_page a) 1 = Inr p" and "int_arg L (arg_per_page a) 10 = Inr n"
    and "transactions_query (price_text L) st (case arg_search a of None \<Rightarrow> [] | Some s \<Rightarrow> s)
           (case arg_month a of None \<Rightarrow> [] | Some s \<Rightarrow> s) = Inr q"
  shows "get_transactions L st a =
           (case paginate p n q of Inl e \<Rightarrow> Inl e | Inr ts \<Rightarrow> Inr (Reply200 (map to_json ts)))"
  using assms by (simp add: get_transactions_def)

lemma page_two_args:
  "int_arg example_library (arg_page page_two) 1 = Inr 2"
  "int_arg example_library (arg_per_page page_two) 10 = Inr 2"
  by code_simp+

lemma page_three_args:
  "int_arg example_library (arg_page page_three) 1 = Inr 3"
  "int_arg example_library (arg_per_page page_three) 10 = Inr 2"
  by code_simp+

lemma page_huge_args:
  "int_arg example_library (arg_page page_huge) 1 = Inr 4611686018427387905"
  "int_arg example_library (arg_per_page page_huge) 10 = Inr 2"
  by code_simp+

lemma march_query:
  "arg_search a = None \<Longrightarrow> arg_month a = Some ''March'' \<Longrightarrow>
   transactions_query ptext example_store
     (case arg_search a of None \<Rightarrow> [] | Some s \<Rightarrow> s)
     (case arg_month a of None \<Rightarrow> [] | Some s \<Rightarrow> s) =
   Inr (filter (in_month 3) example_store)"
  by (simp add: transactions_query_def strptime_March)

lemma page_queries:
  "transactions_query (price_text example_library) example_store
     (case arg_search page_two of None \<Rightarrow> [] | Some s \<Rightarrow> s)
     (case arg_month page_two of None \<Rightarrow> [] | Some s \<Rightarrow> s) =
   Inr (filter (in_month 3) example_store)"
  "transactions_query (price_text example_library) example_store
     (case arg_search page_three of None \<Rightarrow> [] | Some s \<Rightarrow> s)
     (case arg_month page_three of None \<Rightarrow> [] | Some s \<Rightarrow> s) =
   Inr (filter (in_month 3) example_store)"
  "transactions_query (price_text example_library) example_store
     (case arg_search page_huge of None \<Rightarrow> [] | Some s \<Rightarrow> s)
     (case arg_month page_huge of None \<Rightarrow> [] | Some s \<Rightarrow> s) =
   Inr (filter (in_month 3) example_store)"
  by (rule march_query; simp add: page_two_def page_three_def page_huge_def)+

text \<open>
  Claim C5, as stated, fails: the request \<open>page=4611686018427387905&per_page=2\<close> for
  March has a page that is at least 1 and lies past the last page, and the handler
  answers with no empty array: the offset \<open>2^63\<close> is no SQLite integer, binding it
  raises \<open>OverflowError\<close>, and the request ends as a server error.
\<close>

theorem page_overflow_counterexample:
  "int_arg example_library (arg_page page_huge) 1 = Inr 4611686018427387905 \<and>
   int_arg example_library (arg_per_page page_huge) 10 = Inr 2 \<and>
   get_transactions example_library example_store page_huge = Inl OverflowError"
proof -
  have "paginate 4611686018427387905 2 (filter (in_month 3) example_store) = Inl OverflowError"
    by (rule paginate_overflow) (simp_all add: sqlite_max_def)
  then show ?thesis
    using get_transactions_paginate [OF page_huge_args page_queries(3)] page_huge_args
    by simp
qed

text \<open>
  Claim C5, amended. Let the query of \<open>/transactions\<close> (month filter and search filter,
  in the order of the store) select the rows \<open>q\<close>, let the page be \<open>p \<ge> 1\<close> and the page
  size \<open>n \<ge> 0\<close>. When \<open>n\<close> and the offset \<open>(p - 1) * n\<close> are SQLite integers (at most
  \<open>2^63 - 1\<close>), the handler answers with status 200 and the rows
  \<open>q[(p - 1) * n ..< (p - 1) * n + n]\<close>: their number is
  \<open>min n (max 0 (|q| - (p - 1) * n))\<close>, and a page past the last one is the empty
  array, not an error. When \<open>n\<close> or the offset is larger, the handler raises
  \<open>OverflowError\<close>.
\<close>

theorem transactions_page_slice:
  assumes "int_arg L (arg_page a) 1 = Inr p" and "1 \<le> p"
    and "int_arg L (arg_per_page a) 10 = Inr n" and "0 \<le> n"
    and "transactions_query (price_text L) st (case arg_search a of None \<Rightarrow> [] | Some s \<Rightarrow> s)
           (case arg_month a of None \<Rightarrow> [] | Some s \<Rightarrow> s) = Inr q"
  shows "\<exists>rows. rows = take (nat n) (drop (nat ((p - 1) * n)) q) \<and>
           (n \<le> sqlite_max \<and> (p - 1) * n \<le> sqlite_max \<longrightarrow>
              get_transactions L st a = Inr (Reply200 (map to_json rows))) \<and>
           (sqlite_max < n \<or> sqlite_max < (p - 1) * n \<longrightarrow>
              get_transactions L st a = Inl OverflowError) \<and>
           int (length rows) = min n (max 0 (int (length q) - (p - 1) * n)) \<and>
           (int (length q) \<le> (p - 1) * n \<longrightarrow> rows = []) \<and>
           (\<exists>P. q = filter P st)"
proof -
  let ?rows = "take (nat n) (drop (nat ((p - 1) * n)) q)"
  note g = get_transactions_paginate [OF assms(1,3,5)]
  have ok: "n \<le> sqlite_max \<and> (p - 1) * n \<le> sqlite_max \<longrightarrow>
      get_transactions L st a = Inr (Reply200 (map to_json ?rows))"
    using g paginate_in_range [OF assms(2,4), of q] by simp
  have ov: "sqlite_max < n \<or> sqlite_max < (p - 1) * n \<longrightarrow>
      get_transactions L st a = Inl OverflowError"
    using g paginate_overflow [OF assms(2,4), of q] by auto
  have l: "int (length ?rows) = min n (max 0 (int (length q) - (p - 1) * n))"
    by (rule slice_length [OF assms(2,4)])
  have e: "int (length q) \<le> (p - 1) * n \<longrightarrow> ?rows = []"
    by auto
  from ok ov l e transactions_query_filter [OF assms(5)] show ?thesis by blast
qed

theorem transactions_page_slice_witness:
  "get_transactions example_library example_store page_two =
     Inr (Reply200 [to_json (mk_row 3 ''phone'' 999 ''electronics'' 3)]) \<and>
   get_transactions example_library example_store page_three = Inr (Reply200 []) \<and>
   get_transactions example_library example_store page_huge = Inl OverflowError"
proof -
  have p2: "(1::int) \<le> 2" and p3: "(1::int) \<le> 3" and n: "(0::int) \<le> 2"
    and ph: "(1::int) \<le> 4611686018427387905"
    by simp_all
  from transactions_page_slice [OF page_two_args(1) p2 page_two_args(2) n page_queries(1)]
  have a: "get_transactions example_library example_store page_two =
     Inr (Reply200 [to_json (mk_row 3 ''phone'' 999 ''electronics'' 3)])"
    unfolding example_march_rows by (auto simp: sqlite_max_def)
  from transactions_page_slice [OF page_three_args(1) p3 page_three_args(2) n page_queries(2)]
  have b: "get_transactions example_library example_store page_three = Inr (Reply200 [])"
    unfolding example_march_rows by (auto simp: sqlite_max_def)
  from transactions_page_slice [OF page_huge_args(1) ph page_huge_args(2) n page_queries(3)]
  have c: "get_transactions example_library example_store page_huge = Inl OverflowError"
    by (auto simp: sqlite_max_def)
  from a b c show ?thesis by simp
qed

end
